theory Spec2Isabelle
  imports Main
begin

section \<open>Python values\<close>

text \<open>
  The console assistant is two Python modules, \<open>maindz.py\<close> (the program) and
  \<open>dop2.py\<close> (an earlier copy of its classes). \<open>maindz.py\<close> imports the classes of
  \<open>dop2.py\<close> and then defines classes of the same names again, so inside \<open>maindz.py\<close>
  the names \<open>Phone\<close>, \<open>Email\<close>, \<open>Birthday\<close>, \<open>Notes\<close>, \<open>NoteManager\<close> and
  \<open>AddressBookIterator\<close> mean the classes of \<open>maindz.py\<close>. Definitions taken from
  \<open>dop2.py\<close> carry the prefix \<open>dop2_\<close> where both modules define the name.

  A Python \<open>str\<close> is a sequence of code points. It is modelled as a \<open>string\<close>, one
  \<open>char\<close> per code point, which covers the code points below 256 (Latin-1).
  Exceptions are values of the type \<open>error\<close>; a function that can raise returns
  \<open>error + 'a\<close>.
\<close>

datatype error =
    ValueError string
  | TypeError
  | AttributeError
  | IndexError
  | StopIteration
  | FileNotFoundError

subsection \<open>Characters and strings\<close>

text \<open>
  \<open>str.isdecimal\<close> holds of the characters of category Nd, below 256 the ASCII digits.
  \<open>str.isdigit\<close> holds of the characters whose Numeric\_Type is Decimal or Digit:
  below 256 the ASCII digits and the superscripts U+00B2, U+00B3 and U+00B9.
\<close>

definition isdecimal_char :: "char \<Rightarrow> bool" where
  "isdecimal_char c = (48 \<le> (of_char c :: nat) \<and> (of_char c :: nat) \<le> 57)"

definition isdigit_char :: "char \<Rightarrow> bool" where
  "isdigit_char c =
     (isdecimal_char c \<or> (of_char c :: nat) = 178 \<or> (of_char c :: nat) = 179
        \<or> (of_char c :: nat) = 185)"

definition isdigit :: "string \<Rightarrow> bool" where
  "isdigit s = (s \<noteq> [] \<and> list_all isdigit_char s)"

text \<open>
  \<open>str.lower\<close>: below 256 the upper-case letters are A-Z and U+00C0-U+00DE without
  the multiplication sign U+00D7; each maps to the code point 32 above it.
\<close>

definition lower_char :: "char \<Rightarrow> char" where
  "lower_char c =
     (let n = (of_char c :: nat) in
      if (65 \<le> n \<and> n \<le> 90) \<or> (192 \<le> n \<and> n \<le> 222 \<and> n \<noteq> 215)
      then char_of (n + 32) else c)"

definition lower :: "string \<Rightarrow> string" where
  "lower s = map lower_char s"

text \<open>\<open>q in s\<close> on strings: \<open>q\<close> occurs in \<open>s\<close> as a contiguous substring.\<close>

fun str_in :: "string \<Rightarrow> string \<Rightarrow> bool" where
  "str_in q [] = (q = [])"
| "str_in q (c # cs) = (take (length q) (c # cs) = q \<or> str_in q cs)"

text \<open>\<open>str(n)\<close> for an \<open>int\<close>: the decimal digits, with a minus sign when negative.\<close>

fun digits_of :: "nat \<Rightarrow> string" where
  "digits_of n =
     (if n < 10 then [char_of (48 + n)] else digits_of (n div 10) @ [char_of (48 + n mod 10)])"

declare digits_of.simps [simp del]

definition str_int :: "int \<Rightarrow> string" where
  "str_int i = (if i < 0 then CHR ''-'' # digits_of (nat (- i)) else digits_of (nat i))"

text \<open>
  \<open>int(s)\<close> for a \<open>str\<close>, base 10: white space is stripped on both sides, one sign
  may lead, then decimal digits follow, a single underscore allowed between two
  digits. Anything else is a \<open>ValueError\<close>. The white space that \<open>int\<close> skips
  is the C white space U+0009-U+000D and U+0020 and, below 256, the Unicode spaces
  U+0085 and U+00A0; the separators U+001C-U+001F, which \<open>str.isspace\<close> accepts,
  are not skipped. A literal of more than 4300 digits is refused with a
  \<open>ValueError\<close> of its own (the default limit of \<open>sys.set_int_max_str_digits\<close>).
\<close>

definition int_space_char :: "char \<Rightarrow> bool" where
  "int_space_char c =
     (let n = (of_char c :: nat) in
      (9 \<le> n \<and> n \<le> 13) \<or> n = 32 \<or> n = 133 \<or> n = 160)"

definition strip :: "string \<Rightarrow> string" where
  "strip s = rev (dropWhile int_space_char (rev (dropWhile int_space_char s)))"

definition digit_val :: "char \<Rightarrow> int" where
  "digit_val c = int (of_char c) - 48"

fun parse_digits :: "string \<Rightarrow> int \<Rightarrow> int option" where
  "parse_digits [] acc = Some acc"
| "parse_digits (c # cs) acc =
     (if isdecimal_char c then parse_digits cs (acc * 10 + digit_val c)
      else if c = CHR ''_'' then
        (case cs of
           [] \<Rightarrow> None
         | d # ds \<Rightarrow>
             if isdecimal_char d then parse_digits ds (acc * 10 + digit_val d) else None)
      else None)"

definition unsigned_int :: "string \<Rightarrow> int option" where
  "unsigned_int s =
     (case s of
        [] \<Rightarrow> None
      | c # cs \<Rightarrow> if isdecimal_char c then parse_digits cs (digit_val c) else None)"

definition py_int :: "string \<Rightarrow> error + int" where
  "py_int s =
     (case (case strip s of
              c # cs \<Rightarrow>
                if c = CHR ''-'' then map_option uminus (unsigned_int cs)
                else if c = CHR ''+'' then unsigned_int cs
                else unsigned_int (c # cs)
            | [] \<Rightarrow> None) of
        None \<Rightarrow> Inl (ValueError ''invalid literal for int() with base 10'')
      | Some n \<Rightarrow>
          if 4300 < length (filter isdecimal_char (strip s))
          then Inl (ValueError ''Exceeds the limit (4300 digits) for integer string conversion'')
          else Inr n)"

subsection \<open>Calendar dates (the standard library's datetime)\<close>

text \<open>
  \<open>datetime.date\<close> has a year, a month and a day; \<open>datetime.datetime\<close> is its
  subclass and adds the time of day. The ordinal of a date and the days of a month
  are computed as the library does (\<open>_ymd2ord\<close>, \<open>_days_in_month\<close>).
\<close>

record date =
  year :: int
  month :: int
  day :: int

record datetime = date +
  hour :: int
  minute :: int
  second :: int
  microsecond :: int

datatype dateval = DateV date | DatetimeV datetime

definition is_leap :: "int \<Rightarrow> bool" where
  "is_leap y = (y mod 4 = 0 \<and> (y mod 100 \<noteq> 0 \<or> y mod 400 = 0))"

definition days_in_month :: "int \<Rightarrow> int \<Rightarrow> int" where
  "days_in_month y m =
     (if m = 2 \<and> is_leap y then 29
      else [31, 28, 31, 30, 31, 30, 31, 31, 30, 31, 30, 31] ! nat (m - 1))"

definition days_before_year :: "int \<Rightarrow> int" where
  "days_before_year y = (y - 1) * 365 + (y - 1) div 4 - (y - 1) div 100 + (y - 1) div 400"

definition days_before_month :: "int \<Rightarrow> int \<Rightarrow> int" where
  "days_before_month y m =
     [0, 31, 59, 90, 120, 151, 181, 212, 243, 273, 304, 334] ! nat (m - 1)
       + (if m > 2 \<and> is_leap y then 1 else 0)"

definition ymd2ord :: "int \<Rightarrow> int \<Rightarrow> int \<Rightarrow> int" where
  "ymd2ord y m d = days_before_year y + days_before_month y m + d"

text \<open>
  \<open>date(y, m, d)\<close> and \<open>datetime(y, m, d)\<close> check their fields: the year in
  1..9999, the month in 1..12, the day within the month. \<open>datetime(y, m, d)\<close> is
  midnight of that day.
\<close>

definition check_date_fields :: "int \<Rightarrow> int \<Rightarrow> int \<Rightarrow> error option" where
  "check_date_fields y m d =
     (if \<not> (1 \<le> y \<and> y \<le> 9999) then Some (ValueError (''year '' @ str_int y @ '' is out of range''))
      else if \<not> (1 \<le> m \<and> m \<le> 12) then Some (ValueError ''month must be in 1..12'')
      else if \<not> (1 \<le> d \<and> d \<le> days_in_month y m)
        then Some (ValueError ''day is out of range for month'')
      else None)"

definition datetime_new :: "int \<Rightarrow> int \<Rightarrow> int \<Rightarrow> error + datetime" where
  "datetime_new y m d =
     (case check_date_fields y m d of
        Some e \<Rightarrow> Inl e
      | None \<Rightarrow>
          Inr \<lparr>year = y, month = m, day = d,
               hour = 0, minute = 0, second = 0, microsecond = 0\<rparr>)"

text \<open>\<open>t.date()\<close>: the date of a datetime, an instance of \<open>date\<close> and not of \<open>datetime\<close>.\<close>

definition datetime_date :: "datetime \<Rightarrow> date" where
  "datetime_date t = \<lparr>year = year t, month = month t, day = day t\<rparr>"

text \<open>\<open>a < b\<close> on datetimes compares the seven fields in order.\<close>

fun lex_less :: "int list \<Rightarrow> int list \<Rightarrow> bool" where
  "lex_less (x # xs) (y # ys) = (x < y \<or> (x = y \<and> lex_less xs ys))"
| "lex_less _ _ = False"

definition datetime_fields :: "datetime \<Rightarrow> int list" where
  "datetime_fields t = [year t, month t, day t, hour t, minute t, second t, microsecond t]"

definition datetime_less :: "datetime \<Rightarrow> datetime \<Rightarrow> bool" where
  "datetime_less a b = lex_less (datetime_fields a) (datetime_fields b)"

text \<open>
  \<open>(a - b).days\<close>: the difference is a \<open>timedelta\<close> of days, seconds and
  microseconds, normalised so that the seconds and microseconds are not negative; its
  days are the whole days of the difference, rounded down.
\<close>

definition toordinal :: "datetime \<Rightarrow> int" where
  "toordinal t = ymd2ord (year t) (month t) (day t)"

definition seconds_of_day :: "datetime \<Rightarrow> int" where
  "seconds_of_day t = second t + minute t * 60 + hour t * 3600"

definition sub_days :: "datetime \<Rightarrow> datetime \<Rightarrow> int" where
  "sub_days a b =
     (((toordinal a - toordinal b) * 86400 + (seconds_of_day a - seconds_of_day b)) * 1000000
        + (microsecond a - microsecond b)) div (86400 * 1000000)"

text \<open>
  \<open>datetime.strptime(s, "%Y-%m-%d")\<close>. The library turns the format into the regular
  expression \<open>(\d\d\d\d)-(1[0-2]|0[1-9]|[1-9])-(3[01]|[12]\d|0[1-9]|[1-9]| [1-9])\<close>
  and matches it at the start of \<open>s\<close>, trying the alternatives in this order; the
  first match counts. The match must reach the end of \<open>s\<close>, and the three numbers
  must form a date. Every failure is a \<open>ValueError\<close> (its message is kept without the
  operands the library formats into it). Each function below lists the matches of
  one group as pairs of the matched text and the rest of the input.
\<close>

definition match_Y :: "string \<Rightarrow> (string \<times> string) list" where
  "match_Y s =
     (case s of
        a # b # c # d # r \<Rightarrow>
          if list_all isdecimal_char [a, b, c, d] then [([a, b, c, d], r)] else []
      | _ \<Rightarrow> [])"

definition match_m :: "string \<Rightarrow> (string \<times> string) list" where
  "match_m s =
     (case s of
        a # b # r \<Rightarrow>
          (if a = CHR ''1'' \<and> b \<in> set ''012'' then [([a, b], r)] else []) @
          (if a = CHR ''0'' \<and> b \<in> set ''123456789'' then [([a, b], r)] else [])
      | _ \<Rightarrow> []) @
     (case s of
        a # r \<Rightarrow> if a \<in> set ''123456789'' then [([a], r)] else []
      | [] \<Rightarrow> [])"

definition match_d :: "string \<Rightarrow> (string \<times> string) list" where
  "match_d s =
     (case s of
        a # b # r \<Rightarrow>
          (if a = CHR ''3'' \<and> b \<in> set ''01'' then [([a, b], r)] else []) @
          (if a \<in> set ''12'' \<and> isdecimal_char b then [([a, b], r)] else []) @
          (if a = CHR ''0'' \<and> b \<in> set ''123456789'' then [([a, b], r)] else [])
      | _ \<Rightarrow> []) @
     (case s of
        a # r \<Rightarrow> if a \<in> set ''123456789'' then [([a], r)] else []
      | [] \<Rightarrow> []) @
     (case s of
        a # b # r \<Rightarrow>
          if a = CHR '' '' \<and> b \<in> set ''123456789'' then [([a, b], r)] else []
      | _ \<Rightarrow> [])"

definition match_literal :: "char \<Rightarrow> string \<Rightarrow> string list" where
  "match_literal c s = (case s of a # r \<Rightarrow> if a = c then [r] else [] | [] \<Rightarrow> [])"

definition strptime_matches :: "string \<Rightarrow> (string \<times> string \<times> string \<times> string) list" where
  "strptime_matches s =
     [(y, m, d, r5).
        (y, r1) \<leftarrow> match_Y s, r2 \<leftarrow> match_literal (CHR ''-'') r1,
        (m, r3) \<leftarrow> match_m r2, r4 \<leftarrow> match_literal (CHR ''-'') r3,
        (d, r5) \<leftarrow> match_d r4]"

definition strptime_ymd :: "string \<Rightarrow> error + datetime" where
  "strptime_ymd s =
     (case strptime_matches s of
        [] \<Rightarrow> Inl (ValueError ''time data does not match format'')
      | (y, m, d, rest) # _ \<Rightarrow>
          if rest \<noteq> [] then Inl (ValueError ''unconverted data remains'')
          else
            (case (py_int y, py_int m, py_int d) of
               (Inr yi, Inr mi, Inr di) \<Rightarrow> datetime_new yi mi di
             | _ \<Rightarrow> Inl (ValueError ''invalid literal for int() with base 10'')))"

section \<open>Fields (maindz.py)\<close>

text \<open>A \<open>Field\<close> holds one attribute, \<open>value\<close>. Each subclass is a type of its own.\<close>

datatype Phone = MkPhone (phone_value: string)

definition is_valid_phone :: "string \<Rightarrow> bool" where
  "is_valid_phone v = (length v = 10 \<and> isdigit v)"

definition Phone_init :: "string \<Rightarrow> error + Phone" where
  "Phone_init v =
     (if \<not> is_valid_phone v then Inl (ValueError ''Invalid phone number format'')
      else Inr (MkPhone v))"

datatype Email = MkEmail (email_value: string)

definition is_valid_email :: "string \<Rightarrow> bool" where
  "is_valid_email v = str_in ''@'' v"

definition Email_init :: "string \<Rightarrow> error + Email" where
  "Email_init v =
     (if \<not> is_valid_email v then Inl (ValueError ''Invalid email format'')
      else Inr (MkEmail v))"

text \<open>
  \<open>Birthday(value)\<close> accepts an instance of \<open>datetime\<close> only. A \<open>date\<close> that is not
  a \<open>datetime\<close> fails the \<open>isinstance\<close> test.
\<close>

datatype Birthday = MkBirthday (birthday_value: datetime)

definition Birthday_init :: "dateval \<Rightarrow> error + Birthday" where
  "Birthday_init v =
     (case v of
        DateV d \<Rightarrow> Inl (ValueError ''Invalid birthday format. Use a datetime object.'')
      | DatetimeV t \<Rightarrow> Inr (MkBirthday t))"

datatype Notes = MkNotes (notes_text: string)

section \<open>Record (maindz.py)\<close>

text \<open>
  The attribute \<open>birthday\<close> of a \<open>Record\<close> is \<open>None\<close> at first. \<open>set_birthday\<close>
  assigns a \<open>Birthday\<close> field to it. The readers of the attribute,
  \<open>Record.__str__\<close> (\<open>self.birthday.strftime\<close>) and \<open>get_upcoming_birthdays\<close>
  (\<open>record.birthday.month\<close>, \<open>record.birthday.day\<close>), use it as a \<open>date\<close> or
  \<open>datetime\<close> stored in the attribute itself. The type of the attribute has both.
  The attribute \<open>address\<close> is an \<open>Address\<close> field whose value is \<open>None\<close> at first.
\<close>

datatype birthday_attr = NoBirthday | BirthdayObj Birthday | DateObj dateval

record Record =
  name :: string
  phones :: "Phone list"
  email :: "Email option"
  birthday :: birthday_attr
  address :: "string option"
  record_notes :: "Notes list"

definition Record_init :: "string \<Rightarrow> Record" where
  "Record_init n =
     \<lparr>name = n, phones = [], email = None, birthday = NoBirthday, address = None,
      record_notes = []\<rparr>"

definition add_phone :: "string \<Rightarrow> Record \<Rightarrow> error + Record" where
  "add_phone phone self =
     (case Phone_init phone of
        Inl e \<Rightarrow> Inl e
      | Inr p \<Rightarrow> Inr (self\<lparr>phones := phones self @ [p]\<rparr>))"

definition add_email :: "string \<Rightarrow> Record \<Rightarrow> error + Record" where
  "add_email em self =
     (case Email_init em of
        Inl e \<Rightarrow> Inl e
      | Inr p \<Rightarrow> Inr (self\<lparr>email := Some p\<rparr>))"

text \<open>
  \<open>edit_phone\<close> walks the phones, assigns \<open>new_phone\<close> to the value of the first one
  equal to \<open>old_phone\<close> and stops; the loop returns the phones and the flag \<open>found\<close>.
\<close>

fun edit_phone_loop :: "Phone list \<Rightarrow> string \<Rightarrow> string \<Rightarrow> Phone list \<times> bool" where
  "edit_phone_loop [] old_phone new_phone = ([], False)"
| "edit_phone_loop (phone # rest) old_phone new_phone =
     (if phone_value phone = old_phone then (MkPhone new_phone # rest, True)
      else (case edit_phone_loop rest old_phone new_phone of
              (rest', found) \<Rightarrow> (phone # rest', found)))"

definition edit_phone :: "string \<Rightarrow> string \<Rightarrow> Record \<Rightarrow> error + Record" where
  "edit_phone old_phone new_phone self =
     (case edit_phone_loop (phones self) old_phone new_phone of
        (phones', found) \<Rightarrow>
          if \<not> found
          then Inl (ValueError (''Phone '' @ old_phone @ '' not found in the record''))
          else Inr (self\<lparr>phones := phones'\<rparr>))"

text \<open>\<open>edit_email\<close> assigns to \<open>self.email.value\<close>; with no email set that is an \<open>AttributeError\<close>.\<close>

definition edit_email :: "string \<Rightarrow> Record \<Rightarrow> error + Record" where
  "edit_email new_email self =
     (if \<not> is_valid_email new_email then Inl (ValueError ''Invalid email format'')
      else (case email self of
              None \<Rightarrow> Inl AttributeError
            | Some e \<Rightarrow> Inr (self\<lparr>email := Some (MkEmail new_email)\<rparr>)))"

text \<open>
  \<open>set_birthday\<close> parses the string, takes the \<open>date\<close> of the result and builds a
  \<open>Birthday\<close> from it, all inside \<open>try\<close>; any \<open>ValueError\<close> is replaced by its own.
\<close>

definition set_birthday :: "string \<Rightarrow> Record \<Rightarrow> error + Record" where
  "set_birthday s self =
     (case (case strptime_ymd s of
              Inl e \<Rightarrow> Inl e
            | Inr birthday_datetime \<Rightarrow>
                Birthday_init (DateV (datetime_date birthday_datetime))) of
        Inl (ValueError msg) \<Rightarrow> Inl (ValueError ''Invalid birthday date format. Use YYYY-MM-DD.'')
      | Inl e \<Rightarrow> Inl e
      | Inr b \<Rightarrow> Inr (self\<lparr>birthday := BirthdayObj b\<rparr>))"

definition set_address :: "string \<Rightarrow> Record \<Rightarrow> Record" where
  "set_address a self = self\<lparr>address := Some a\<rparr>"

section \<open>AddressBook (maindz.py)\<close>

text \<open>
  \<open>AddressBook\<close> is a \<open>UserDict\<close>: its \<open>data\<close> is a \<open>dict\<close> from names to
  records, which keeps the order of insertion, so it is a list of pairs here. The
  book owns a \<open>NoteManager\<close> (of \<open>maindz.py\<close>: its attribute \<open>notes\<close>, here \<open>nm_notes\<close>, is a list
  of \<open>Notes\<close>, each a text).
\<close>

record NoteManager =
  nm_notes :: "Notes list"

record AddressBook =
  data :: "(string \<times> Record) list"
  notes_manager :: NoteManager

definition NoteManager_init :: NoteManager where
  "NoteManager_init = \<lparr>nm_notes = []\<rparr>"

definition AddressBook_init :: AddressBook where
  "AddressBook_init = \<lparr>data = [], notes_manager = NoteManager_init\<rparr>"

definition NoteManager_add_note :: "string \<Rightarrow> NoteManager \<Rightarrow> NoteManager" where
  "NoteManager_add_note t self = self\<lparr>nm_notes := nm_notes self @ [MkNotes t]\<rparr>"

definition add_note :: "string \<Rightarrow> AddressBook \<Rightarrow> AddressBook" where
  "add_note t self = self\<lparr>notes_manager := NoteManager_add_note t (notes_manager self)\<rparr>"

text \<open>\<open>address_book[name] = record\<close>: a new key goes to the end, an old key keeps its place.\<close>

fun setitem :: "string \<Rightarrow> Record \<Rightarrow> (string \<times> Record) list \<Rightarrow> (string \<times> Record) list" where
  "setitem k v [] = [(k, v)]"
| "setitem k v ((k', v') # rest) = (if k' = k then (k, v) # rest else (k', v') # setitem k v rest)"

definition data_values :: "AddressBook \<Rightarrow> Record list" where
  "data_values self = map snd (data self)"

subsection \<open>Saving and loading\<close>

text \<open>
  \<open>pickle.dump\<close> writes the object it is given with everything the object refers
  to, and \<open>pickle.load\<close> builds an equal object from it. A file is modelled by the
  object it holds. \<open>AddressBook.save_to_file\<close> dumps \<open>self.data\<close>; the module's
  \<open>save_book\<close> dumps the book itself, to the fixed path \<open>FILENAME\<close>.
  \<open>load_from_file\<close> assigns whatever object the file holds to \<open>self.data\<close>. When
  that is a \<open>dict\<close>, the result is a book again (\<open>Loaded\<close>). When it is a whole
  \<open>AddressBook\<close>, that object itself becomes \<open>self.data\<close>; such a \<open>self\<close> is
  no book of records, and the result keeps both objects as they are
  (\<open>DataIsBook self loaded\<close>) and nothing else is said of it. \<open>load_book\<close> does
  not use its parameter and returns whatever object the file at \<open>FILENAME\<close> holds,
  a new book when there is no such file.
\<close>

datatype pickled = PickledDict "(string \<times> Record) list" | PickledBook AddressBook

type_synonym files = "string \<rightharpoonup> pickled"

definition FILENAME :: string where
  "FILENAME = ''address_book.pkl''"

definition save_to_file :: "string \<Rightarrow> AddressBook \<Rightarrow> files \<Rightarrow> files" where
  "save_to_file filename self fs = fs(filename \<mapsto> PickledDict (data self))"

datatype load_result = Loaded AddressBook | DataIsBook AddressBook AddressBook

definition load_from_file :: "string \<Rightarrow> files \<Rightarrow> AddressBook \<Rightarrow> error + load_result" where
  "load_from_file filename fs self =
     (case fs filename of
        None \<Rightarrow> Inl FileNotFoundError
      | Some (PickledDict d) \<Rightarrow> Inr (Loaded (self\<lparr>data := d\<rparr>))
      | Some (PickledBook b) \<Rightarrow> Inr (DataIsBook self b))"

definition save_book :: "AddressBook \<Rightarrow> files \<Rightarrow> files" where
  "save_book address_book fs = fs(FILENAME \<mapsto> PickledBook address_book)"

definition load_book :: "string \<Rightarrow> files \<Rightarrow> pickled" where
  "load_book filename fs =
     (case fs FILENAME of
        None \<Rightarrow> PickledBook AddressBook_init
      | Some obj \<Rightarrow> obj)"

subsection \<open>Search\<close>

text \<open>
  \<open>search\<close> tries \<open>int(query[0])\<close>. When that raises (an \<open>IndexError\<close> for the
  empty query, a \<open>ValueError\<close> for a first character that is no digit) the names
  are searched; otherwise the phones are, and a record is appended once for each of
  its phones that matches. \<open>finally: return results\<close> ends every path.
\<close>

definition getitem0 :: "string \<Rightarrow> error + string" where
  "getitem0 s = (case s of [] \<Rightarrow> Inl IndexError | c # cs \<Rightarrow> Inr [c])"

definition search :: "string \<Rightarrow> AddressBook \<Rightarrow> Record list" where
  "search query self =
     (case (case getitem0 query of Inl e \<Rightarrow> Inl e | Inr c \<Rightarrow> py_int c) of
        Inl e \<Rightarrow>
          [record. (key, record) \<leftarrow> data self, str_in (lower query) (lower key)]
      | Inr n \<Rightarrow>
          concat (map (\<lambda>(key, record).
                    [record. phone \<leftarrow> phones record,
                       str_in (lower query) (lower (phone_value phone))])
                  (data self)))"

subsection \<open>Pages\<close>

text \<open>
  \<open>xs[start:stop]\<close>: an index below zero counts from the end, and both indices are
  clamped to the list.
\<close>

definition slice_index :: "int \<Rightarrow> int \<Rightarrow> int" where
  "slice_index n i = (if i < 0 then max (i + n) 0 else min i n)"

definition py_slice :: "'a list \<Rightarrow> int \<Rightarrow> int \<Rightarrow> 'a list" where
  "py_slice xs start stop =
     (let n = int (length xs); lo = slice_index n start; hi = slice_index n stop
      in take (nat (hi - lo)) (drop (nat lo) xs))"

text \<open>
  The iterator keeps a reference to the book and reads the book's \<open>data\<close> anew at
  every call of \<open>__next__\<close>; the book is therefore a parameter of the call.
  \<open>AddressBook.__iter__\<close> makes an iterator of 5 items per page.
\<close>

record AddressBookIterator =
  items_per_page :: int
  current_page :: int

definition AddressBookIterator_init :: "int \<Rightarrow> AddressBookIterator" where
  "AddressBookIterator_init n = \<lparr>items_per_page = n, current_page = 0\<rparr>"

definition AddressBook_iter :: AddressBookIterator where
  "AddressBook_iter = AddressBookIterator_init 5"

definition iter_next ::
  "AddressBook \<Rightarrow> AddressBookIterator \<Rightarrow> (error + Record list) \<times> AddressBookIterator" where
  "iter_next address_book self =
     (let start = current_page self * items_per_page self;
          stop = start + items_per_page self;
          records = py_slice (data_values address_book) start stop
      in if records = [] then (Inl StopIteration, self)
         else (Inr records, self\<lparr>current_page := current_page self + 1\<rparr>))"

text \<open>\<open>iter_calls k\<close> calls \<open>__next__\<close> \<open>k\<close> times on the same book and lists the outcomes.\<close>

fun iter_calls ::
  "nat \<Rightarrow> AddressBook \<Rightarrow> AddressBookIterator \<Rightarrow> (error + Record list) list \<times> AddressBookIterator" where
  "iter_calls 0 address_book self = ([], self)"
| "iter_calls (Suc k) address_book self =
     (case iter_next address_book self of
        (r, self') \<Rightarrow>
          (case iter_calls k address_book self' of (rs, self'') \<Rightarrow> (r # rs, self'')))"

section \<open>Upcoming birthdays (maindz.py)\<close>

text \<open>
  \<open>record.birthday.month\<close> and \<open>record.birthday.day\<close> are attributes of a \<open>date\<close>
  or \<open>datetime\<close>. A \<open>Birthday\<close> field has the attribute \<open>value\<close> only, and
  \<open>None\<close> has neither: reading them is an \<open>AttributeError\<close>.
\<close>

definition birthday_month :: "birthday_attr \<Rightarrow> error + int" where
  "birthday_month b =
     (case b of
        NoBirthday \<Rightarrow> Inl AttributeError
      | BirthdayObj f \<Rightarrow> Inl AttributeError
      | DateObj (DateV d) \<Rightarrow> Inr (month d)
      | DateObj (DatetimeV t) \<Rightarrow> Inr (month t))"

definition birthday_day :: "birthday_attr \<Rightarrow> error + int" where
  "birthday_day b =
     (case b of
        NoBirthday \<Rightarrow> Inl AttributeError
      | BirthdayObj f \<Rightarrow> Inl AttributeError
      | DateObj (DateV d) \<Rightarrow> Inr (day d)
      | DateObj (DatetimeV t) \<Rightarrow> Inr (day t))"

text \<open>
  \<open>days_count\<close> reaches \<open>get_upcoming_birthdays\<close> as an \<open>int\<close>, or as the \<open>str\<close>
  the user typed when \<open>int\<close> refused it. \<open>0 <= delta.days <= days_count\<close> compares
  with \<open>days_count\<close> only when the first comparison holds; comparing an \<open>int\<close> with
  a \<open>str\<close> is a \<open>TypeError\<close>.
\<close>

datatype days_arg = IntArg int | StrArg string

definition in_window :: "int \<Rightarrow> days_arg \<Rightarrow> error + bool" where
  "in_window delta_days days_count =
     (if \<not> 0 \<le> delta_days then Inr False
      else (case days_count of
              IntArg n \<Rightarrow> Inr (delta_days \<le> n)
            | StrArg s \<Rightarrow> Inl TypeError))"

text \<open>
  The loop of \<open>get_upcoming_birthdays\<close> over \<open>address_book.data.values()\<close>.
  \<open>today\<close> is \<open>datetime.today()\<close>, the current date with the time of day, and is a
  parameter here. A \<open>Birthday\<close>, a \<open>date\<close> and a \<open>datetime\<close> are all true in
  \<open>if record.birthday\<close>; only \<open>None\<close> is false.
\<close>

fun upcoming_loop ::
  "datetime \<Rightarrow> days_arg \<Rightarrow> Record list \<Rightarrow> Record list \<Rightarrow> error + Record list" where
  "upcoming_loop today days_count [] upcoming_birthdays = Inr upcoming_birthdays"
| "upcoming_loop today days_count (record # rest) upcoming_birthdays =
     (if birthday record = NoBirthday then upcoming_loop today days_count rest upcoming_birthdays
      else
        (case birthday_month (birthday record) of
           Inl e \<Rightarrow> Inl e
         | Inr m \<Rightarrow>
        (case birthday_day (birthday record) of
           Inl e \<Rightarrow> Inl e
         | Inr d \<Rightarrow>
        (case datetime_new (year today) m d of
           Inl e \<Rightarrow> Inl e
         | Inr this_year \<Rightarrow>
        (case (if datetime_less this_year today then datetime_new (year today + 1) m d
               else Inr this_year) of
           Inl e \<Rightarrow> Inl e
         | Inr next_birthday \<Rightarrow>
        (case in_window (sub_days next_birthday today) days_count of
           Inl e \<Rightarrow> Inl e
         | Inr True \<Rightarrow> upcoming_loop today days_count rest (upcoming_birthdays @ [record])
         | Inr False \<Rightarrow> upcoming_loop today days_count rest upcoming_birthdays))))))"

definition get_upcoming_birthdays ::
  "datetime \<Rightarrow> AddressBook \<Rightarrow> days_arg \<Rightarrow> error + Record list" where
  "get_upcoming_birthdays today address_book days_count =
     upcoming_loop today days_count (data_values address_book) []"

text \<open>
  \<open>fun_upcoming_birthdays\<close> reads a line, converts it and checks the sign inside
  \<open>try\<close>; the \<open>except ValueError\<close> prints a message, and the function goes on to
  the query with whatever \<open>days_count\<close> is by then. The result is what is printed
  and how the call ends. \<open>print(contact)\<close> is the output of a record.
\<close>

datatype printed = Print string | PrintRecord Record

definition str_days :: "days_arg \<Rightarrow> string" where
  "str_days days_count = (case days_count of IntArg n \<Rightarrow> str_int n | StrArg s \<Rightarrow> s)"

definition fun_upcoming_birthdays ::
  "datetime \<Rightarrow> AddressBook \<Rightarrow> string \<Rightarrow> printed list \<times> (error + unit)" where
  "fun_upcoming_birthdays today address_book line =
     (case (case py_int line of
              Inl e \<Rightarrow>
                (StrArg line, [Print ''Invalid input. Please enter a non-negative integer.''])
            | Inr n \<Rightarrow>
                if n < 0
                then (IntArg n, [Print ''Invalid input. Please enter a non-negative integer.''])
                else (IntArg n, [])) of
        (days_count, out) \<Rightarrow>
          (case get_upcoming_birthdays today address_book days_count of
             Inl e \<Rightarrow> (out, Inl e)
           | Inr upcoming_birthdays \<Rightarrow>
               if upcoming_birthdays \<noteq> []
               then (out @
                       [Print ''**********'',
                        Print (''Upcoming birthdays within the next '' @ str_days days_count
                                 @ '' days:'')] @
                       concat (map (\<lambda>contact. [PrintRecord contact, Print ''**********''])
                                 upcoming_birthdays),
                     Inr ())
               else (out @
                       [Print (''No upcoming birthdays within the next '' @ str_days days_count
                                 @ '' days.'')],
                     Inr ())))"

section \<open>Email (dop2.py)\<close>

text \<open>
  \<open>dop2.Email\<close> validates with \<open>fullmatch(EMAIL_REGULAR, value, flags=IGNORECASE)\<close>.
  The pattern has character classes, concatenation, \<open>+\<close> and \<open>{2,}\<close> only, so
  \<open>fullmatch\<close> succeeds exactly when the whole string is in the language of the
  pattern; the matcher decides that by derivatives. Every class of the pattern holds
  lower-case letters or characters without case, so under \<open>IGNORECASE\<close> a character
  is in a class when its lower-case form is.
\<close>

datatype rx =
    Empty
  | Eps
  | Cls "char \<Rightarrow> bool"
  | Alt rx rx
  | Seq rx rx
  | Star rx

fun nullable :: "rx \<Rightarrow> bool" where
  "nullable Empty = False"
| "nullable Eps = True"
| "nullable (Cls P) = False"
| "nullable (Alt r s) = (nullable r \<or> nullable s)"
| "nullable (Seq r s) = (nullable r \<and> nullable s)"
| "nullable (Star r) = True"

fun deriv :: "char \<Rightarrow> rx \<Rightarrow> rx" where
  "deriv c Empty = Empty"
| "deriv c Eps = Empty"
| "deriv c (Cls P) = (if P c then Eps else Empty)"
| "deriv c (Alt r s) = Alt (deriv c r) (deriv c s)"
| "deriv c (Seq r s) =
     (if nullable r then Alt (Seq (deriv c r) s) (deriv c s) else Seq (deriv c r) s)"
| "deriv c (Star r) = Seq (deriv c r) (Star r)"

definition rx_match :: "rx \<Rightarrow> string \<Rightarrow> bool" where
  "rx_match r s = nullable (fold deriv s r)"

definition fullmatch_ignorecase :: "rx \<Rightarrow> string \<Rightarrow> bool" where
  "fullmatch_ignorecase r s = rx_match r (lower s)"

definition one_or_more :: "rx \<Rightarrow> rx" where
  "one_or_more r = Seq r (Star r)"

definition two_or_more :: "rx \<Rightarrow> rx" where
  "two_or_more r = Seq r (Seq r (Star r))"

definition a_to_z :: "char \<Rightarrow> bool" where
  "a_to_z c = (97 \<le> (of_char c :: nat) \<and> (of_char c :: nat) \<le> 122)"

definition local_char :: "char \<Rightarrow> bool" where
  "local_char c = (a_to_z c \<or> isdecimal_char c \<or> c = CHR ''_'' \<or> c = CHR ''.'')"

definition domain_char :: "char \<Rightarrow> bool" where
  "domain_char c = (a_to_z c \<or> c = CHR ''.'')"

definition EMAIL_REGULAR :: rx where
  "EMAIL_REGULAR =
     Seq (Cls a_to_z)
       (Seq (one_or_more (Cls local_char))
          (Seq (Cls (\<lambda>c. c = CHR ''@''))
             (Seq (one_or_more (Cls domain_char))
                (Seq (Cls (\<lambda>c. c = CHR ''.'')) (two_or_more (Cls a_to_z))))))"

datatype dop2_Email = dop2_MkEmail (dop2_email_value: string)

definition dop2_is_valid_email :: "string \<Rightarrow> bool" where
  "dop2_is_valid_email v = fullmatch_ignorecase EMAIL_REGULAR v"

definition dop2_Email_init :: "string \<Rightarrow> error + dop2_Email" where
  "dop2_Email_init v =
     (if \<not> dop2_is_valid_email v then Inl (ValueError ''Invalid email format'')
      else Inr (dop2_MkEmail v))"

section \<open>Notes (dop2.py)\<close>

text \<open>
  A note of \<open>dop2.py\<close> has a text, an author and tags. \<open>Notes(text, author, tags)\<close>
  puts the empty list for tags that are \<open>None\<close>. \<open>edit_note\<close> assigns its
  parameters \<open>new_text\<close> and \<open>new_tags\<close>, which default to \<open>None\<close>, so the text
  and the tags of a stored note may be \<open>None\<close>. \<open>str(note)\<close> joins the tags and
  fails with a \<open>TypeError\<close> when they are \<open>None\<close>; a text that is \<open>None\<close> prints
  as \<open>None\<close>.
\<close>

record dop2_Notes =
  note_text :: "string option"
  author :: string
  tags :: "string list option"

definition dop2_Notes_init :: "string \<Rightarrow> string \<Rightarrow> string list option \<Rightarrow> dop2_Notes" where
  "dop2_Notes_init t a ts =
     \<lparr>note_text = Some t, author = a, tags = Some (case ts of None \<Rightarrow> [] | Some l \<Rightarrow> l)\<rparr>"

fun join :: "string \<Rightarrow> string list \<Rightarrow> string" where
  "join sep [] = []"
| "join sep [x] = x"
| "join sep (x # y # ys) = x @ sep @ join sep (y # ys)"

definition str_option :: "string option \<Rightarrow> string" where
  "str_option v = (case v of None \<Rightarrow> ''None'' | Some s \<Rightarrow> s)"

definition dop2_Notes_str :: "dop2_Notes \<Rightarrow> error + string" where
  "dop2_Notes_str self =
     (case tags self of
        None \<Rightarrow> Inl TypeError
      | Some ts \<Rightarrow>
          Inr (str_option (note_text self) @ '' (by '' @ author self @ '', Tags: ''
                 @ join '', '' ts @ '')''))"

record dop2_NoteManager =
  dop2_notes :: "dop2_Notes list"

definition dop2_NoteManager_init :: dop2_NoteManager where
  "dop2_NoteManager_init = \<lparr>dop2_notes = []\<rparr>"

definition add_note_with_tags ::
  "string \<Rightarrow> string \<Rightarrow> string list option \<Rightarrow> dop2_NoteManager \<Rightarrow> dop2_NoteManager" where
  "add_note_with_tags a t ts self =
     self\<lparr>dop2_notes := dop2_notes self @ [dop2_Notes_init t a ts]\<rparr>"

text \<open>
  \<open>edit_note\<close> and \<open>delete_note\<close> print and return \<open>None\<close>: the result is the
  printed lines, how the call ends, and the manager afterwards. \<open>delete_note\<close>
  removes the note with \<open>pop\<close> before it formats the line it prints.
\<close>

definition edit_note ::
  "int \<Rightarrow> string option \<Rightarrow> string list option \<Rightarrow> dop2_NoteManager
     \<Rightarrow> (string list \<times> (error + unit)) \<times> dop2_NoteManager" where
  "edit_note index new_text new_tags self =
     (if 1 \<le> index \<and> index \<le> int (length (dop2_notes self))
      then (([''Note '' @ str_int index @ '' edited successfully.''], Inr ()),
            self\<lparr>dop2_notes :=
              (dop2_notes self)[nat (index - 1) :=
                 (dop2_notes self ! nat (index - 1))\<lparr>note_text := new_text, tags := new_tags\<rparr>]\<rparr>)
      else (([''Invalid note index.''], Inr ()), self))"

definition delete_note ::
  "int \<Rightarrow> dop2_NoteManager \<Rightarrow> (string list \<times> (error + unit)) \<times> dop2_NoteManager" where
  "delete_note index self =
     (if 1 \<le> index \<and> index \<le> int (length (dop2_notes self))
      then
        (let deleted_note = dop2_notes self ! nat (index - 1);
             self' = self\<lparr>dop2_notes :=
                       take (nat (index - 1)) (dop2_notes self) @ drop (nat index) (dop2_notes self)\<rparr>
         in (case dop2_Notes_str deleted_note of
               Inl e \<Rightarrow> (([], Inl e), self')
             | Inr s \<Rightarrow> (([''Note '' @ str_int index @ '' deleted: '' @ s], Inr ()), self')))
      else (([''Invalid note index.''], Inr ()), self))"

section \<open>Reference definitions and sample data\<close>

text \<open>
  The batches as the specification words them: \<open>ceil(n/p)\<close> slices of \<open>p\<close>
  records each, in order, the last one shorter when \<open>p\<close> does not divide \<open>n\<close>.
\<close>

definition spec_batches :: "nat \<Rightarrow> 'a list \<Rightarrow> 'a list list" where
  "spec_batches p xs = map (\<lambda>i. take p (drop (i * p) xs)) [0..<(length xs + p - 1) div p]"

text \<open>Books, records and times for the concrete cases.\<close>

definition book_of :: "Record list \<Rightarrow> AddressBook" where
  "book_of rs = AddressBook_init\<lparr>data := map (\<lambda>r. (name r, r)) rs\<rparr>"

definition born :: "string \<Rightarrow> birthday_attr \<Rightarrow> Record" where
  "born n b = (Record_init n)\<lparr>birthday := b\<rparr>"

definition at_hour :: "int \<Rightarrow> int \<Rightarrow> int \<Rightarrow> int \<Rightarrow> datetime" where
  "at_hour y m d h =
     \<lparr>year = y, month = m, day = d, hour = h, minute = 0, second = 0, microsecond = 0\<rparr>"

definition twelve :: "Record list" where
  "twelve = map (\<lambda>c. Record_init [c]) ''abcdefghijkl''"

section \<open>Phone construction\<close>

lemma isdecimal_imp_isdigit: "isdecimal_char c \<Longrightarrow> isdigit_char c"
  by (simp add: isdigit_char_def)

lemma superscript_two_isdigit: "isdigit_char (CHR 0xB2) \<and> \<not> isdecimal_char (CHR 0xB2)"
  by (simp add: isdigit_char_def isdecimal_char_def)

lemma isdigit_length_10: "length s = 10 \<Longrightarrow> isdigit s = list_all isdigit_char s"
  by (auto simp: isdigit_def)

text \<open>
  C8 (as amended). \<open>Phone(s)\<close> succeeds exactly when \<open>s\<close> has length 10 and every
  character of \<open>s\<close> satisfies \<open>str.isdigit\<close>; on success the stored value is \<open>s\<close>;
  every string of 10 decimal digits is accepted; every other outcome is the
  \<open>ValueError\<close> "Invalid phone number format".
\<close>

theorem Phone_init_isdigit:
  "(Phone_init s = Inr p \<longleftrightarrow> length s = 10 \<and> list_all isdigit_char s \<and> p = MkPhone s)
   \<and> (length s = 10 \<and> list_all isdecimal_char s \<longrightarrow>
        Phone_init s = Inr (MkPhone s) \<and> phone_value (MkPhone s) = s)
   \<and> (length s \<noteq> 10 \<or> \<not> list_all isdigit_char s \<longrightarrow>
        Phone_init s = Inl (ValueError ''Invalid phone number format''))"
proof -
  have dec: "list_all isdecimal_char s \<Longrightarrow> list_all isdigit_char s"
    by (induction s) (simp_all add: isdecimal_imp_isdigit)
  show ?thesis
    using dec by (cases "length s = 10") (auto simp: Phone_init_def is_valid_phone_def isdigit_def)
qed

theorem Phone_init_isdigit_witness:
  "Phone_init ''0501234567'' = Inr (MkPhone ''0501234567'')
   \<and> Phone_init ''12345'' = Inl (ValueError ''Invalid phone number format'')
   \<and> Phone_init ''05012x4567'' = Inl (ValueError ''Invalid phone number format'')"
proof -
  have a: "length ''0501234567'' = 10 \<and> list_all isdecimal_char ''0501234567''"
    by (simp add: isdecimal_char_def)
  have b: "length ''12345'' \<noteq> 10 \<or> \<not> list_all isdigit_char ''12345''"
    by simp
  have c: "length ''05012x4567'' \<noteq> 10 \<or> \<not> list_all isdigit_char ''05012x4567''"
    by (simp add: isdigit_char_def isdecimal_char_def)
  show ?thesis
    using a b c Phone_init_isdigit [of "''0501234567''"] Phone_init_isdigit [of "''12345''"]
      Phone_init_isdigit [of "''05012x4567''"]
    by blast
qed

text \<open>
  C8 as stated fails: the string of ten superscript twos (U+00B2) has length 10 and
  passes \<open>str.isdigit\<close>, so \<open>Phone\<close> accepts it, yet none of its characters is a
  decimal digit.
\<close>

theorem Phone_init_decimal_counterexample:
  "Phone_init (replicate 10 (CHR 0xB2)) = Inr (MkPhone (replicate 10 (CHR 0xB2)))
   \<and> \<not> list_all isdecimal_char (replicate 10 (CHR 0xB2))"
  by (simp add: Phone_init_def is_valid_phone_def isdigit_def isdigit_char_def
      isdecimal_char_def list_all_iff)

section \<open>Record mutations\<close>

lemma datetime_new_error: "datetime_new y m d = Inl e \<Longrightarrow> \<exists>msg. e = ValueError msg"
  by (auto simp: datetime_new_def check_date_fields_def split: option.splits if_splits)

lemma strptime_ymd_error: "strptime_ymd s = Inl e \<Longrightarrow> \<exists>msg. e = ValueError msg"
  by (auto simp: strptime_ymd_def split: list.splits prod.splits sum.splits if_splits
      dest: datetime_new_error)

lemma strptime_ymd_2000_01_01:
  "strptime_ymd ''2000-01-01'' =
     Inr \<lparr>year = 2000, month = 1, day = 1, hour = 0, minute = 0, second = 0, microsecond = 0\<rparr>"
  by (simp add: strptime_ymd_def strptime_matches_def match_Y_def match_m_def match_d_def
      match_literal_def isdecimal_char_def py_int_def strip_def int_space_char_def
      unsigned_int_def digit_val_def datetime_new_def check_date_fields_def days_in_month_def)

text \<open>
  C1 (the code at the failing input). \<open>set_birthday\<close> fails on every string, also on
  one that parses as a calendar date: \<open>strptime\<close> accepts \<open>2000-01-01\<close>, the
  \<open>.date()\<close> of the result is not a \<open>datetime\<close>, \<open>Birthday\<close> refuses it, and
  the \<open>ValueError\<close> is reported as an invalid date format. No birthday is stored.
\<close>

theorem set_birthday_always_fails:
  "set_birthday s r = Inl (ValueError ''Invalid birthday date format. Use YYYY-MM-DD.'')
   \<and> (\<exists>t. strptime_ymd ''2000-01-01'' = Inr t)
   \<and> set_birthday ''2000-01-01'' (Record_init ''Ann'') =
       Inl (ValueError ''Invalid birthday date format. Use YYYY-MM-DD.'')"
proof -
  have gen: "set_birthday s' r' = Inl (ValueError ''Invalid birthday date format. Use YYYY-MM-DD.'')"
    for s' r'
  proof (cases "strptime_ymd s'")
    case (Inl e)
    then obtain msg where "e = ValueError msg"
      using strptime_ymd_error by blast
    with Inl show ?thesis by (simp add: set_birthday_def)
  next
    case (Inr t)
    then show ?thesis by (simp add: set_birthday_def Birthday_init_def)
  qed
  show ?thesis
    using gen strptime_ymd_2000_01_01 by simp
qed

text \<open>
  C5 (the code at the failing input). \<open>edit_phone\<close> stores the new value without
  validating it: after \<open>add_phone("0501234567")\<close>, \<open>edit_phone("0501234567", "abc")\<close>
  returns normally and the record holds the phone \<open>abc\<close>, which \<open>Phone\<close> itself
  refuses.
\<close>

theorem edit_phone_stores_invalid:
  "add_phone ''0501234567'' (Record_init ''Ann'') =
     Inr ((Record_init ''Ann'')\<lparr>phones := [MkPhone ''0501234567'']\<rparr>)
   \<and> edit_phone ''0501234567'' ''abc'' ((Record_init ''Ann'')\<lparr>phones := [MkPhone ''0501234567'']\<rparr>) =
     Inr ((Record_init ''Ann'')\<lparr>phones := [MkPhone ''abc'']\<rparr>)
   \<and> Phone_init ''abc'' = Inl (ValueError ''Invalid phone number format'')"
  by (simp add: add_phone_def edit_phone_def Phone_init_def is_valid_phone_def isdigit_def
      isdigit_char_def isdecimal_char_def Record_init_def)

text \<open>The part of C5 that holds: with no phone equal to \<open>old_phone\<close> the call fails and
  nothing changes; with one, the first such phone is replaced and the others stay.\<close>

lemma edit_phone_loop_not_found:
  "old_phone \<notin> phone_value ` set ps \<Longrightarrow> edit_phone_loop ps old_phone new_phone = (ps, False)"
  by (induction ps) auto

lemma edit_phone_not_found:
  "old_phone \<notin> phone_value ` set (phones r) \<Longrightarrow>
   edit_phone old_phone new_phone r =
     Inl (ValueError (''Phone '' @ old_phone @ '' not found in the record''))"
  by (simp add: edit_phone_def edit_phone_loop_not_found)

lemma edit_phone_loop_found:
  "old_phone \<in> phone_value ` set ps \<Longrightarrow>
   edit_phone_loop ps old_phone new_phone =
     (takeWhile (\<lambda>p. phone_value p \<noteq> old_phone) ps @
        MkPhone new_phone # tl (dropWhile (\<lambda>p. phone_value p \<noteq> old_phone) ps), True)"
  by (induction ps) auto

lemma edit_phone_found:
  "old_phone \<in> phone_value ` set (phones r) \<Longrightarrow>
   edit_phone old_phone new_phone r =
     Inr (r\<lparr>phones := takeWhile (\<lambda>p. phone_value p \<noteq> old_phone) (phones r) @
        MkPhone new_phone # tl (dropWhile (\<lambda>p. phone_value p \<noteq> old_phone) (phones r))\<rparr>)"
  by (simp add: edit_phone_def edit_phone_loop_found)

section \<open>Pages\<close>

lemma ceil_div_less:
  fixes P :: nat
  assumes "0 < P"
  shows "(j < (n + P - 1) div P) = (j * P < n)"
proof -
  have "(j < (n + P - 1) div P) = (Suc j \<le> (n + P - 1) div P)" by auto
  also have "\<dots> = (Suc j * P \<le> n + P - 1)"
    using assms by (simp add: less_eq_div_iff_mult_less_eq)
  also have "\<dots> = (j * P < n)" using assms by auto
  finally show ?thesis .
qed

lemma py_slice_page:
  assumes "0 < p"
  shows "py_slice xs (int c * p) (int c * p + p) = take (nat p) (drop (c * nat p) xs)"
proof -
  have nn: "0 \<le> int c * p" using assms by simp
  have eq: "nat (int c * p) = c * nat p" using assms by (simp add: nat_mult_distrib)
  have nn2: "0 \<le> int c * p + p" using nn assms by simp
  show ?thesis
  proof (cases "int c * p < int (length xs)")
    case True
    then have lo: "slice_index (int (length xs)) (int c * p) = int c * p"
      using nn by (simp add: slice_index_def)
    show ?thesis
    proof (cases "int c * p + p \<le> int (length xs)")
      case True
      then have "slice_index (int (length xs)) (int c * p + p) = int c * p + p"
        using nn2 by (simp add: slice_index_def)
      then show ?thesis using lo eq by (simp add: py_slice_def Let_def)
    next
      case False
      then have hi: "slice_index (int (length xs)) (int c * p + p) = int (length xs)"
        using nn2 by (simp add: slice_index_def)
      have "length xs - c * nat p \<le> nat p" using False eq nn assms by linarith
      then have "take (length xs - c * nat p) (drop (c * nat p) xs) = take (nat p) (drop (c * nat p) xs)"
        by simp
      moreover have "nat (int (length xs) - int c * p) = length xs - c * nat p"
        using eq nn by linarith
      ultimately show ?thesis using lo hi eq by (simp add: py_slice_def Let_def)
    qed
  next
    case False
    then have lo: "slice_index (int (length xs)) (int c * p) = int (length xs)"
      using nn by (simp add: slice_index_def)
    have hi: "slice_index (int (length xs)) (int c * p + p) = int (length xs)"
      using False nn2 assms by (simp add: slice_index_def)
    have "length xs \<le> c * nat p" using False eq nn by linarith
    then show ?thesis using lo hi by (simp add: py_slice_def Let_def)
  qed
qed

lemma iter_next_page:
  assumes "0 < p"
  shows "iter_next book \<lparr>items_per_page = p, current_page = int c\<rparr> =
     (if c * nat p < length (data_values book)
      then (Inr (take (nat p) (drop (c * nat p) (data_values book))),
            \<lparr>items_per_page = p, current_page = int (Suc c)\<rparr>)
      else (Inl StopIteration, \<lparr>items_per_page = p, current_page = int c\<rparr>))"
proof -
  have "take (nat p) (drop (c * nat p) (data_values book)) = [] \<longleftrightarrow>
        \<not> c * nat p < length (data_values book)"
    using assms by auto
  then show ?thesis
    using py_slice_page [OF assms, of "data_values book" c]
    by (simp add: iter_next_def Let_def add.commute)
qed

lemma iter_calls_pages:
  assumes "0 < p"
  shows "c \<le> (length (data_values book) + nat p - 1) div nat p \<Longrightarrow>
     iter_calls k book \<lparr>items_per_page = p, current_page = int c\<rparr> =
       (map (\<lambda>i. if i < (length (data_values book) + nat p - 1) div nat p
                  then Inr (take (nat p) (drop (i * nat p) (data_values book)))
                  else Inl StopIteration) [c..<c + k],
        \<lparr>items_per_page = p,
         current_page = int (min (c + k) ((length (data_values book) + nat p - 1) div nat p))\<rparr>)"
proof (induction k arbitrary: c)
  case 0
  then show ?case by simp
next
  case (Suc k)
  let ?m = "(length (data_values book) + nat p - 1) div nat p"
  let ?f = "\<lambda>i. if i < ?m then Inr (take (nat p) (drop (i * nat p) (data_values book)))
                  else Inl StopIteration"
  have P: "0 < nat p" using assms by simp
  have upt: "[c..<Suc (c + k)] = c # [Suc c..<Suc (c + k)]"
    by (subst upt_rec) simp
  show ?case
  proof (cases "c < ?m")
    case True
    then have lt: "c * nat p < length (data_values book)"
      using ceil_div_less [OF P] by blast
    have "Suc c \<le> ?m" using True by simp
    from Suc.IH [OF this]
    have ih: "iter_calls k book \<lparr>items_per_page = p, current_page = int (Suc c)\<rparr> =
       (map ?f [Suc c..<Suc c + k],
        \<lparr>items_per_page = p, current_page = int (min (Suc c + k) ?m)\<rparr>)" .
    have "iter_calls (Suc k) book \<lparr>items_per_page = p, current_page = int c\<rparr> =
       (?f c # map ?f [Suc c..<Suc c + k],
        \<lparr>items_per_page = p, current_page = int (min (Suc c + k) ?m)\<rparr>)"
      using True lt by (simp only: iter_calls.simps iter_next_page [OF assms] ih if_True prod.case)
    then show ?thesis by (simp del: upt_Suc add: upt)
  next
    case False
    then have ge: "\<not> c * nat p < length (data_values book)"
      using ceil_div_less [OF P] by blast
    have cm: "c = ?m" using False Suc.prems by simp
    from Suc.IH [OF Suc.prems]
    have ih: "iter_calls k book \<lparr>items_per_page = p, current_page = int c\<rparr> =
       (map ?f [c..<c + k],
        \<lparr>items_per_page = p, current_page = int (min (c + k) ?m)\<rparr>)" .
    have rep: "map ?f [a..<a + k] = replicate k (Inl StopIteration)" if "?m \<le> a" for a
      using that by (simp add: list_eq_iff_nth_eq del: upt_Suc)
    have fs: "map ?f [c..<c + k] = map ?f [Suc c..<Suc c + k]"
      using cm rep [of c] rep [of "Suc c"] by simp
    have mn: "min (c + k) ?m = min (Suc c + k) ?m" using cm by simp
    have "iter_calls (Suc k) book \<lparr>items_per_page = p, current_page = int c\<rparr> =
       (?f c # map ?f [c..<c + k],
        \<lparr>items_per_page = p, current_page = int (min (c + k) ?m)\<rparr>)"
      using False ge by (simp only: iter_calls.simps iter_next_page [OF assms] ih if_False prod.case)
    then show ?thesis using fs mn by (simp del: upt_Suc add: upt)
  qed
qed


lemma concat_batches: "concat (map (\<lambda>i. take p (drop (i * p) xs)) [0..<k]) = take (k * p) xs"
proof (induction k)
  case 0
  then show ?case by simp
next
  case (Suc k)
  have "take (k * p) xs @ take p (drop (k * p) xs) = take (k * p + p) xs"
    by (simp add: take_add)
  with Suc show ?case by (simp add: add.commute)
qed

lemma batch_length:
  fixes p :: nat
  assumes "0 < p" and "i < (length xs + p - 1) div p"
  shows "length (take p (drop (i * p) xs)) =
     (if Suc i < (length xs + p - 1) div p \<or> p dvd length xs then p else length xs mod p)"
proof -
  let ?n = "length xs"
  have lt: "i * p < ?n" using assms ceil_div_less by blast
  have len: "length (take p (drop (i * p) xs)) = min p (?n - i * p)" by simp
  show ?thesis
  proof (cases "Suc i < (?n + p - 1) div p")
    case True
    then have "Suc i * p < ?n" using assms(1) ceil_div_less by blast
    then have "p \<le> ?n - i * p" by simp
    then show ?thesis using True len by simp
  next
    case False
    then have "\<not> Suc i * p < ?n" using assms(1) ceil_div_less by blast
    then have ge: "?n - i * p \<le> p" by simp
    show ?thesis
    proof (cases "p dvd ?n")
      case True
      then have "p dvd ?n - i * p" by (simp add: dvd_diff_nat)
      moreover have "0 < ?n - i * p" using lt by simp
      ultimately have "p \<le> ?n - i * p" by (rule dvd_imp_le)
      then show ?thesis using True len by simp
    next
      case ndvd: False
      have "?n \<noteq> Suc i * p" using ndvd by auto
      then have up: "?n < p * Suc i" using ge lt by (simp add: mult.commute)
      have low: "p * i \<le> ?n" using lt by (simp add: mult.commute)
      have "?n div p = i" using low up by (rule div_nat_eqI)
      then have "?n mod p = ?n - i * p"
        using minus_div_mult_eq_mod [of ?n p] by simp
      then show ?thesis using False ndvd ge len by simp
    qed
  qed
qed

text \<open>
  C9. For a page size \<open>p > 0\<close> and a book of \<open>n\<close> records, a new iterator called
  \<open>ceil(n/p) + j\<close> times yields the \<open>ceil(n/p)\<close> batches of \<open>spec_batches\<close> in
  order and then \<open>StopIteration\<close> at each of the \<open>j\<close> further calls; the batches
  together are the records in the book's order; each has \<open>p\<close> records, except the
  last, which has \<open>n mod p\<close> when \<open>p\<close> does not divide \<open>n\<close>.
\<close>

theorem pagination:
  assumes "0 < p"
  shows "iter_calls ((length (data_values book) + nat p - 1) div nat p + j) book
           (AddressBookIterator_init p) =
         (map Inr (spec_batches (nat p) (data_values book)) @ replicate j (Inl StopIteration),
          \<lparr>items_per_page = p,
           current_page = int ((length (data_values book) + nat p - 1) div nat p)\<rparr>)
       \<and> length (spec_batches (nat p) (data_values book)) =
           (length (data_values book) + nat p - 1) div nat p
       \<and> concat (spec_batches (nat p) (data_values book)) = data_values book
       \<and> (\<forall>i < length (spec_batches (nat p) (data_values book)).
            length (spec_batches (nat p) (data_values book) ! i) =
              (if Suc i < length (spec_batches (nat p) (data_values book))
                  \<or> nat p dvd length (data_values book)
               then nat p else length (data_values book) mod nat p))"
proof -
  let ?vs = "data_values book"
  let ?P = "nat p"
  let ?m = "(length ?vs + ?P - 1) div ?P"
  have P: "0 < ?P" using assms by simp
  have calls: "iter_calls (?m + j) book \<lparr>items_per_page = p, current_page = int 0\<rparr> =
       (map (\<lambda>i. if i < ?m then Inr (take ?P (drop (i * ?P) ?vs)) else Inl StopIteration)
          [0..<?m + j],
        \<lparr>items_per_page = p, current_page = int ?m\<rparr>)"
    using iter_calls_pages [OF assms, of 0 book "?m + j"] by simp
  have split: "[0..<?m + j] = [0..<?m] @ [?m..<?m + j]"
    by (rule upt_add_eq_append) simp
  have a: "map (\<lambda>i. if i < ?m then Inr (take ?P (drop (i * ?P) ?vs)) else Inl StopIteration) [0..<?m]
        = map Inr (spec_batches ?P ?vs)"
    by (simp add: spec_batches_def)
  have b: "map (\<lambda>i. if i < ?m then Inr (take ?P (drop (i * ?P) ?vs)) else Inl StopIteration)
             [?m..<?m + j] = replicate j (Inl StopIteration)"
    by (simp add: list_eq_iff_nth_eq del: upt_Suc)
  have one: "iter_calls (?m + j) book (AddressBookIterator_init p) =
         (map Inr (spec_batches ?P ?vs) @ replicate j (Inl StopIteration),
          \<lparr>items_per_page = p, current_page = int ?m\<rparr>)"
    using calls by (simp only: split map_append a b AddressBookIterator_init_def of_nat_0)
  have two: "length (spec_batches ?P ?vs) = ?m"
    by (simp add: spec_batches_def)
  have "\<not> ?m * ?P < length ?vs" using ceil_div_less [OF P, of ?m "length ?vs"] by simp
  then have three: "concat (spec_batches ?P ?vs) = ?vs"
    by (simp add: spec_batches_def concat_batches)
  have four: "\<forall>i < length (spec_batches ?P ?vs).
            length (spec_batches ?P ?vs ! i) =
              (if Suc i < length (spec_batches ?P ?vs) \<or> ?P dvd length ?vs
               then ?P else length ?vs mod ?P)"
  proof (intro allI impI)
    fix i assume "i < length (spec_batches ?P ?vs)"
    then have i: "i < ?m" using two by simp
    then have "spec_batches ?P ?vs ! i = take ?P (drop (i * ?P) ?vs)"
      by (simp add: spec_batches_def del: upt_Suc)
    then show "length (spec_batches ?P ?vs ! i) =
              (if Suc i < length (spec_batches ?P ?vs) \<or> ?P dvd length ?vs
               then ?P else length ?vs mod ?P)"
      using batch_length [OF P i] two by simp
  qed
  show ?thesis using one two three four by blast
qed

lemma data_values_book_of: "data_values (book_of rs) = rs"
  by (simp add: data_values_def book_of_def AddressBook_init_def comp_def)
lemma length_twelve: "length twelve = 12"
  by (simp add: twelve_def)
lemma m: "(length (data_values (book_of twelve)) + nat 5 - 1) div nat 5 = 3"
  by (simp add: data_values_book_of length_twelve)
lemma upt3: "[0..<3] = [0, 1, 2]"
  by (simp add: upt_rec)
lemma sb: "spec_batches 5 twelve = [take 5 twelve, take 5 (drop 5 twelve), take 5 (drop 10 twelve)]"
  by (simp add: spec_batches_def length_twelve upt3)

text \<open>Page size 5 over twelve records: batches of 5, 5 and 2, then exhaustion twice.\<close>

theorem pagination_witness:
  "iter_calls 5 (book_of twelve) (AddressBookIterator_init 5) =
     ([Inr (take 5 twelve), Inr (take 5 (drop 5 twelve)), Inr (take 5 (drop 10 twelve)),
       Inl StopIteration, Inl StopIteration],
      \<lparr>items_per_page = 5, current_page = 3\<rparr>)
   \<and> map length [take 5 twelve, take 5 (drop 5 twelve), take 5 (drop 10 twelve)] = [5, 5, 2]
   \<and> concat [take 5 twelve, take 5 (drop 5 twelve), take 5 (drop 10 twelve)] = twelve"
proof -
  have n5: "nat 5 = 5" by simp
  have m': "(length twelve + 5 - 1) div 5 = 3" by (simp add: length_twelve)
  have r2: "replicate 2 (Inl StopIteration) = [Inl StopIteration, Inl StopIteration :: error + Record list]"
    by (simp add: numeral_2_eq_2)
  have "(0::int) < 5" by simp
  from pagination [OF this, of "book_of twelve" 2]
  have calls: "iter_calls (3 + 2) (book_of twelve) (AddressBookIterator_init 5) =
      (map Inr (spec_batches 5 twelve) @ replicate 2 (Inl StopIteration),
       \<lparr>items_per_page = 5, current_page = int 3\<rparr>)"
    and cc: "concat (spec_batches 5 twelve) = twelve"
    unfolding data_values_book_of n5 m' by blast+
  have len: "map length [take 5 twelve, take 5 (drop 5 twelve), take 5 (drop 10 twelve)] = [5, 5, 2]"
    by (simp add: length_twelve)
  show ?thesis
    using calls cc len unfolding sb r2 by simp
qed

section \<open>Search\<close>

text \<open>
  The empty string is in every string.
\<close>

lemma str_in_empty: "str_in [] s"
  by (cases s) simp_all

text \<open>
  C10. The empty query never fails and returns every record of the book in the
  book's order: \<open>query[0]\<close> raises \<open>IndexError\<close>, the names are searched, and the
  empty string is in every name.
\<close>

theorem search_empty_query: "search [] book = data_values book"
proof -
  have "[record. (key, record) \<leftarrow> d, str_in (lower []) (lower key)] = map snd d" for d :: "(string \<times> Record) list"
    by (induction d) (auto simp: lower_def str_in_empty)
  then show ?thesis
    by (simp add: search_def getitem0_def data_values_def)
qed

section \<open>Upcoming birthdays\<close>

text \<open>
  The definitions that evaluate a date computation at concrete inputs.
\<close>

lemmas calendar_defs =
  datetime_new_def check_date_fields_def days_in_month_def is_leap_def datetime_less_def
  datetime_fields_def sub_days_def toordinal_def seconds_of_day_def ymd2ord_def
  days_before_year_def days_before_month_def

lemmas upcoming_defs =
  get_upcoming_birthdays_def data_values_book_of birthday_month_def birthday_day_def in_window_def
  born_def at_hour_def Record_init_def

text \<open>
  C2 (the code at the failing inputs). \<open>today\<close> is 2024-12-30 at 10:00. A birthday
  on 2 January is 2 days and 14 hours away, so \<open>delta.days\<close> is 2 and the record is
  included at \<open>days_count = 2\<close>. A birthday on 30 December, today, is before
  \<open>today\<close> as a \<open>datetime\<close> at midnight and moves to next year: it is left out at
  \<open>days_count = 0\<close>. A record whose birthday is a \<open>Birthday\<close> field, the only
  kind \<open>set_birthday\<close> could store, ends the query with an \<open>AttributeError\<close>.
\<close>

theorem upcoming_time_of_day:
  "get_upcoming_birthdays (at_hour 2024 12 30 10)
       (book_of [born ''Ann'' (DateObj (DateV \<lparr>year = 1990, month = 1, day = 2\<rparr>))]) (IntArg 2)
     = Inr [born ''Ann'' (DateObj (DateV \<lparr>year = 1990, month = 1, day = 2\<rparr>))]
   \<and> get_upcoming_birthdays (at_hour 2024 12 30 10)
       (book_of [born ''Bob'' (DateObj (DateV \<lparr>year = 1990, month = 12, day = 30\<rparr>))]) (IntArg 0)
     = Inr []
   \<and> get_upcoming_birthdays (at_hour 2024 12 30 10)
       (book_of [born ''Cid'' (BirthdayObj (MkBirthday (at_hour 1990 1 2 0)))]) (IntArg 5)
     = Inl AttributeError"
  by (simp add: upcoming_defs calendar_defs)

text \<open>
  With \<open>today\<close> at midnight exactly, the same records give what C2 says.
\<close>

lemma upcoming_at_midnight:
  "get_upcoming_birthdays (at_hour 2024 12 30 0)
       (book_of [born ''Ann'' (DateObj (DateV \<lparr>year = 1990, month = 1, day = 2\<rparr>))]) (IntArg 2)
     = Inr []
   \<and> get_upcoming_birthdays (at_hour 2024 12 30 0)
       (book_of [born ''Ann'' (DateObj (DateV \<lparr>year = 1990, month = 1, day = 2\<rparr>))]) (IntArg 5)
     = Inr [born ''Ann'' (DateObj (DateV \<lparr>year = 1990, month = 1, day = 2\<rparr>))]
   \<and> get_upcoming_birthdays (at_hour 2024 12 30 0)
       (book_of [born ''Bob'' (DateObj (DateV \<lparr>year = 1990, month = 12, day = 30\<rparr>))]) (IntArg 0)
     = Inr [born ''Bob'' (DateObj (DateV \<lparr>year = 1990, month = 12, day = 30\<rparr>))]"
  by (simp add: upcoming_defs calendar_defs)

text \<open>
  C3 (the code at the failing input). \<open>get_upcoming_birthdays\<close> has no check of
  \<open>days_count\<close>: with -1 it returns the empty list. \<open>fun_upcoming_birthdays\<close>
  raises a \<open>ValueError\<close> for the input -1, catches it itself, prints a message and
  goes on to run the query and report its result.
\<close>

theorem negative_days_not_rejected:
  "get_upcoming_birthdays today AddressBook_init (IntArg (- 1)) = Inr []
   \<and> get_upcoming_birthdays (at_hour 2024 12 30 10)
       (book_of [born ''Ann'' (DateObj (DateV \<lparr>year = 1990, month = 1, day = 2\<rparr>))])
       (IntArg (- 1)) = Inr []
   \<and> fun_upcoming_birthdays today AddressBook_init ''-1'' =
       ([Print ''Invalid input. Please enter a non-negative integer.'',
         Print ''No upcoming birthdays within the next -1 days.''], Inr ())"
proof -
  have e: "data_values AddressBook_init = []"
    by (simp add: data_values_def AddressBook_init_def)
  have a: "get_upcoming_birthdays t AddressBook_init (IntArg (- 1)) = Inr []" for t
    by (simp add: get_upcoming_birthdays_def e)
  have b: "get_upcoming_birthdays (at_hour 2024 12 30 10)
       (book_of [born ''Ann'' (DateObj (DateV \<lparr>year = 1990, month = 1, day = 2\<rparr>))])
       (IntArg (- 1)) = Inr []"
    by (simp add: upcoming_defs calendar_defs)
  have i: "py_int ''-1'' = Inr (- 1)"
    by (simp add: py_int_def strip_def int_space_char_def unsigned_int_def isdecimal_char_def
        digit_val_def)
  have s: "str_int (- 1) = ''-1''"
    by (simp add: str_int_def digits_of.simps char_of_def bit_Suc_0_iff)
  have c: "fun_upcoming_birthdays today AddressBook_init ''-1'' =
       ([Print ''Invalid input. Please enter a non-negative integer.'',
         Print ''No upcoming birthdays within the next -1 days.''], Inr ())"
    by (simp add: fun_upcoming_birthdays_def i a str_days_def s)
  show ?thesis using a b c by simp
qed

section \<open>Email\<close>

text \<open>The pattern of \<open>dop2.py\<close> on some addresses, in either case of letters.\<close>

lemma dop2_email_examples:
  "dop2_is_valid_email ''Bob.x_1@Mail.example.COM''
   \<and> dop2_is_valid_email ''ab@b.cc''
   \<and> \<not> dop2_is_valid_email ''a@b.cc''
   \<and> \<not> dop2_is_valid_email ''ab@b.c''
   \<and> \<not> dop2_is_valid_email ''bad''"
  by (simp add: dop2_is_valid_email_def fullmatch_ignorecase_def rx_match_def EMAIL_REGULAR_def
      lower_def lower_char_def a_to_z_def one_or_more_def two_or_more_def local_char_def
      domain_char_def isdecimal_char_def char_of_def bit_Suc_0_iff)

text \<open>
  C4 (the code at the failing input). The \<open>Email\<close> of \<open>maindz.py\<close>, the one
  \<open>Record.add_email\<close> builds, accepts the string \<open>@\<close>, which the pattern of
  \<open>dop2.py\<close> refuses. Both refuse \<open>bad\<close>.
\<close>

theorem Email_accepts_at_sign:
  "Email_init ''@'' = Inr (MkEmail ''@'')
   \<and> add_email ''@'' (Record_init ''Ann'') = Inr ((Record_init ''Ann'')\<lparr>email := Some (MkEmail ''@'')\<rparr>)
   \<and> \<not> dop2_is_valid_email ''@''
   \<and> dop2_Email_init ''@'' = Inl (ValueError ''Invalid email format'')
   \<and> Email_init ''bad'' = Inl (ValueError ''Invalid email format'')"
  by (simp add: Email_init_def add_email_def is_valid_email_def dop2_Email_init_def
      dop2_is_valid_email_def fullmatch_ignorecase_def rx_match_def EMAIL_REGULAR_def lower_def
      lower_char_def a_to_z_def one_or_more_def two_or_more_def)

section \<open>Notes\<close>

text \<open>
  C6 (as amended). \<open>delete_note(i)\<close> with \<open>1 <= i <= n\<close> removes the \<open>i\<close>-th
  note and leaves the others in order; it does not return the note: when the tags
  of the note are a list, it prints the line \<open>Note i deleted: ...\<close> with the text,
  the author and the tags of the note, and returns \<open>None\<close>.
  With \<open>i < 1\<close> or \<open>i > n\<close> it does not fail: it prints \<open>Invalid note index.\<close>,
  returns \<open>None\<close> and leaves the manager as it was.
\<close>

theorem delete_note_prints:
  "(1 \<le> i \<and> i \<le> int (length (dop2_notes nm)) \<longrightarrow>
      dop2_notes (snd (delete_note i nm)) =
        take (nat (i - 1)) (dop2_notes nm) @ drop (nat i) (dop2_notes nm)
      \<and> (\<forall>ts. tags (dop2_notes nm ! nat (i - 1)) = Some ts \<longrightarrow>
            fst (delete_note i nm) =
              ([''Note '' @ str_int i @ '' deleted: ''
                  @ str_option (note_text (dop2_notes nm ! nat (i - 1)))
                  @ '' (by '' @ author (dop2_notes nm ! nat (i - 1))
                  @ '', Tags: '' @ join '', '' ts @ '')''],
               Inr ())))
   \<and> (\<not> (1 \<le> i \<and> i \<le> int (length (dop2_notes nm))) \<longrightarrow>
        delete_note i nm = (([''Invalid note index.''], Inr ()), nm))"
  by (auto simp: delete_note_def dop2_Notes_str_def Let_def split: option.splits)

text \<open>
  The manager after \<open>add_note_with_tags("alice", "hi", [])\<close>.
\<close>

lemma one_note:
  "dop2_notes (add_note_with_tags ''alice'' ''hi'' (Some []) dop2_NoteManager_init) =
     [\<lparr>note_text = Some ''hi'', author = ''alice'', tags = Some []\<rparr>]"
  by (simp add: add_note_with_tags_def dop2_NoteManager_init_def dop2_Notes_init_def)

text \<open>
  \<open>delete_note(1)\<close> on the empty manager and on the manager with one note.
\<close>

theorem delete_note_prints_witness:
  "delete_note 1 dop2_NoteManager_init = (([''Invalid note index.''], Inr ()), dop2_NoteManager_init)
   \<and> dop2_notes (snd (delete_note 1
         (add_note_with_tags ''alice'' ''hi'' (Some []) dop2_NoteManager_init))) = []
   \<and> fst (delete_note 1 (add_note_with_tags ''alice'' ''hi'' (Some []) dop2_NoteManager_init)) =
       ([''Note 1 deleted: hi (by alice, Tags: )''], Inr ())"
proof -
  have s1: "str_int 1 = ''1''"
    by (simp add: str_int_def digits_of.simps char_of_def bit_Suc_0_iff)
  have e: "\<not> (1 \<le> (1::int) \<and> 1 \<le> int (length (dop2_notes dop2_NoteManager_init)))"
    by (simp add: dop2_NoteManager_init_def)
  have t: "tags (dop2_notes (add_note_with_tags ''alice'' ''hi'' (Some []) dop2_NoteManager_init)
             ! nat (1 - 1)) = Some []"
    by (simp add: one_note)
  show ?thesis
    using delete_note_prints [of 1 dop2_NoteManager_init]
      delete_note_prints [of 1 "add_note_with_tags ''alice'' ''hi'' (Some []) dop2_NoteManager_init"]
      e t
    by (simp add: one_note s1 str_option_def)
qed

text \<open>
  A note whose tags are \<open>None\<close>, as \<open>edit_note(1)\<close> with its default arguments
  leaves them: \<open>delete_note(1)\<close> removes the note and then ends with the
  \<open>TypeError\<close> of \<open>str(note)\<close>, printing nothing.
\<close>

lemma delete_note_after_default_edit:
  "snd (edit_note 1 None None
          (add_note_with_tags ''alice'' ''hi'' (Some []) dop2_NoteManager_init)) =
     \<lparr>dop2_notes = [\<lparr>note_text = None, author = ''alice'', tags = None\<rparr>]\<rparr>
   \<and> delete_note 1 \<lparr>dop2_notes = [\<lparr>note_text = None, author = ''alice'', tags = None\<rparr>]\<rparr> =
       (([], Inl TypeError), \<lparr>dop2_notes = []\<rparr>)"
  by (simp add: edit_note_def delete_note_def dop2_Notes_str_def add_note_with_tags_def
      dop2_NoteManager_init_def dop2_Notes_init_def Let_def)

text \<open>
  C6 as stated fails: \<open>delete_note(1)\<close> on the empty manager ends normally, with
  no error raised, and on the manager with one note it returns \<open>None\<close>, not the note.
\<close>

theorem delete_note_counterexample:
  "snd (fst (delete_note 1 dop2_NoteManager_init)) = Inr ()
   \<and> snd (delete_note 1 dop2_NoteManager_init) = dop2_NoteManager_init
   \<and> snd (fst (delete_note 1
        (add_note_with_tags ''alice'' ''hi'' (Some []) dop2_NoteManager_init))) = Inr ()"
proof -
  have a: "delete_note 1 dop2_NoteManager_init =
      (([''Invalid note index.''], Inr ()), dop2_NoteManager_init)"
    by (simp add: delete_note_def dop2_NoteManager_init_def)
  have b: "snd (fst (delete_note 1
        (add_note_with_tags ''alice'' ''hi'' (Some []) dop2_NoteManager_init))) = Inr ()"
    by (simp add: delete_note_def one_note dop2_Notes_str_def Let_def)
  show ?thesis using a b by simp
qed

section \<open>Saving and loading\<close>

text \<open>
  \<open>load_from_file\<close> after \<open>save_to_file\<close> puts the saved \<open>data\<close> into the
  loading book and leaves that book's notes as they were; \<open>load_book\<close> after
  \<open>save_book\<close> gives the whole book back.
\<close>

lemma load_after_save:
  "load_from_file f (save_to_file f b fs) b' = Inr (Loaded (b'\<lparr>data := data b\<rparr>))"
  by (simp add: load_from_file_def save_to_file_def)

lemma load_book_after_save_book: "load_book f (save_book b fs) = PickledBook b"
  by (simp add: load_book_def save_book_def)

text \<open>
  C7 (the code at the failing input). A book of 3 records and 2 notes is saved with
  \<open>save_to_file\<close> and loaded into a new book with \<open>load_from_file\<close>: the records
  come back, the notes do not. Saved with \<open>save_book\<close> and loaded with
  \<open>load_book\<close>, the same book comes back with its notes.
\<close>

theorem save_to_file_drops_notes:
  "load_from_file f
      (save_to_file f
         (add_note ''n2'' (add_note ''n1''
            (book_of [Record_init ''a'', Record_init ''b'', Record_init ''c''])))
         fs)
      AddressBook_init =
     Inr (Loaded (book_of [Record_init ''a'', Record_init ''b'', Record_init ''c'']))
   \<and> nm_notes (notes_manager (book_of [Record_init ''a'', Record_init ''b'', Record_init ''c''])) = []
   \<and> nm_notes (notes_manager
        (add_note ''n2'' (add_note ''n1''
            (book_of [Record_init ''a'', Record_init ''b'', Record_init ''c''])))) =
       [MkNotes ''n1'', MkNotes ''n2'']
   \<and> load_book f
        (save_book
           (add_note ''n2'' (add_note ''n1''
              (book_of [Record_init ''a'', Record_init ''b'', Record_init ''c''])))
           fs) =
       PickledBook
         (add_note ''n2'' (add_note ''n1''
            (book_of [Record_init ''a'', Record_init ''b'', Record_init ''c''])))"
  by (simp add: load_after_save load_book_after_save_book add_note_def NoteManager_add_note_def
      book_of_def AddressBook_init_def NoteManager_init_def)

end
